theory Spec2Isabelle
  imports Main "HOL-Library.Sublist"
begin

section \<open>Data of \<^verbatim>\<open>main.py\<close>\<close>

type_synonym path = string

text \<open>
  \<^verbatim>\<open>utilities.etc.Credentials\<close>, with the four fields of the data model: \<^verbatim>\<open>register\<close> reads
  \<^verbatim>\<open>credentials.email\<close> and \<^verbatim>\<open>credentials.password\<close>, and \<^verbatim>\<open>parse_account\<close> names the
  mailbox password \<^verbatim>\<open>emailPassword\<close>.
\<close>

record credentials =
  name :: string
  email :: string
  emailPassword :: string
  password :: string

text \<open>
  The credential-record template (\<^verbatim>\<open>config.accountFormat\<close>): literal text and the three
  recognised placeholders.
\<close>

datatype segment = Lit string | PEmail | PEmailPassword | PPassword

type_synonym template = "segment list"

record config =
  executablePath :: string
  accountFormat :: template

text \<open>The \<^verbatim>\<open>argparse\<close> namespace \<^verbatim>\<open>console_args\<close>; an option not given is \<open>None\<close>.\<close>

record console_args =
  keepalive :: bool
  extract_opt :: bool
  verbose :: bool
  file_opt :: "string option"
  public :: bool
  loop :: "int option"
  convert :: bool

text \<open>The file system as \<^verbatim>\<open>os.path\<close> sees it: a path is absent, a file or a directory,
  the last two with their \<^verbatim>\<open>st_size\<close>.\<close>

datatype entry = File (st_size: int) | Folder (st_size: int)

type_synonym fs = "path \<rightharpoonup> entry"

type_synonym message = string

text \<open>What \<^verbatim>\<open>p_print\<close> is asked to show, one constructor per call site.\<close>

datatype notice =
    FailedToFindBrowser
  | FoundExecutable
  | FailedToFindExecutable
  | LoopProgress int int
  | VerifiedAccount
  | ShowCredentials string string
  | LargeFileWarning
  | FileNotFound
  | FailedWhileSettingUp
  | FolderArchivedTo path

text \<open>
  Every call that leaves \<^verbatim>\<open>main.py\<close>, with its arguments. \<open>Sleep\<close> carries the delay in
  milliseconds (\<^verbatim>\<open>asyncio.sleep(1.5)\<close> is \<open>Sleep 1500\<close>).
\<close>

datatype action =
    ClearConsole
  | CheckForUpdates
  | ConvertAccounts
  | ReadConfig
  | WriteDefaultConfig
  | ConcreteReadConfig
  | Input
  | WriteConfig string string config
  | ExtractCredentials template
  | Keepalive bool
  | ClearTmp
  | GenerateMail
  | IsDir path
  | MakeArchive path string path
  | Launch string
  | CreateIncognitoBrowserContext
  | NewPage
  | TypeName credentials
  | TypePassword credentials
  | FinishForm credentials
  | MailLogin credentials
  | Sleep nat
  | GetMail
  | InitialSetup "message option" credentials
  | BrowserClose
  | Print notice
  | DeleteDefault credentials
  | SaveCredentials credentials template
  | GetSize path
  | Exists path
  | UploadFile bool path credentials

text \<open>
  How a run stops early: an exception nobody catches (\<^verbatim>\<open>main.py\<close> has no \<^verbatim>\<open>try\<close> around
  any of these calls), or \<^verbatim>\<open>sys.exit\<close>.
\<close>

datatype exn = CallFailed action | FileNotFoundError path

datatype abort = Raise exn | SystemExit int

text \<open>A run: the calls made, in order, and either how it stopped or what it returned.\<close>

type_synonym 'a run = "action list \<times> (abort + 'a)"

text \<open>
  The world outside the program. \<open>raises i a\<close>: does call \<open>a\<close> raise during attempt \<open>i\<close>
  (attempt \<open>0\<close> is also the start-up and the single-shot attempt); \<open>generated i\<close>: what
  \<^verbatim>\<open>generate_mail\<close> returns in attempt \<open>i\<close>; \<open>inbox i\<close>: what \<^verbatim>\<open>get_mail\<close> returns (Python's
  \<^verbatim>\<open>None\<close> is \<open>None\<close>); \<open>stored_config\<close>: what \<^verbatim>\<open>read_config\<close> returns;
  \<open>default_config\<close>: what \<^verbatim>\<open>concrete_read_config\<close> returns after the default was written;
  \<open>typed_path\<close>: the line \<^verbatim>\<open>input\<close> reads; \<open>zip_size p\<close>: the size of the archive of \<open>p\<close>.
\<close>

record world =
  raises :: "nat \<Rightarrow> action \<Rightarrow> bool"
  generated :: "nat \<Rightarrow> credentials"
  inbox :: "nat \<Rightarrow> message option"
  stored_config :: "config option"
  default_config :: config
  typed_path :: string
  zip_size :: "path \<Rightarrow> int"

section \<open>Sequencing\<close>

definition return :: "'a \<Rightarrow> 'a run" where
  "return x = ([], Inr x)"

definition skip :: "unit run" where
  "skip = return ()"

definition bind_run :: "'a run \<Rightarrow> ('a \<Rightarrow> 'b run) \<Rightarrow> 'b run" where
  "bind_run m f =
     (case m of
        (t, Inl a) \<Rightarrow> (t, Inl a)
      | (t, Inr x) \<Rightarrow> (case f x of (t', r) \<Rightarrow> (t @ t', r)))"

definition then_run :: "unit run \<Rightarrow> 'b run \<Rightarrow> 'b run" where
  "then_run m m' = bind_run m (\<lambda>_. m')"

text \<open>Statements one after the other; the first that stops ends the block.\<close>

primrec seq :: "unit run list \<Rightarrow> unit run" where
  "seq [] = skip"
| "seq (m # ms) = then_run m (seq ms)"

text \<open>
  A call of a collaborator is recorded and then returns or raises, as the world says.
  Console output and \<^verbatim>\<open>asyncio.sleep\<close> are recorded and always return; \<^verbatim>\<open>sys.exit\<close>
  raises \<^verbatim>\<open>SystemExit\<close>, which nothing in \<^verbatim>\<open>main.py\<close> catches.
\<close>

definition call :: "world \<Rightarrow> nat \<Rightarrow> action \<Rightarrow> unit run" where
  "call w i a = ([a], if raises w i a then Inl (Raise (CallFailed a)) else Inr ())"

definition call_returning :: "world \<Rightarrow> nat \<Rightarrow> action \<Rightarrow> 'a \<Rightarrow> 'a run" where
  "call_returning w i a x = ([a], if raises w i a then Inl (Raise (CallFailed a)) else Inr x)"

definition p_print :: "notice \<Rightarrow> unit run" where
  "p_print n = ([Print n], Inr ())"

definition sleep :: "nat \<Rightarrow> unit run" where
  "sleep ms = ([Sleep ms], Inr ())"

definition sys_exit :: "int \<Rightarrow> 'a run" where
  "sys_exit n = ([], Inl (SystemExit n))"

section \<open>\<^verbatim>\<open>os.path\<close> and \<^verbatim>\<open>shutil\<close>\<close>

text \<open>\<^verbatim>\<open>os.path.getsize\<close> raises for a path that is not there.\<close>

definition getsize :: "fs \<Rightarrow> path \<Rightarrow> int run" where
  "getsize files p =
     ([GetSize p],
      case files p of None \<Rightarrow> Inl (Raise (FileNotFoundError p)) | Some e \<Rightarrow> Inr (st_size e))"

definition exists :: "fs \<Rightarrow> path \<Rightarrow> bool run" where
  "exists files p = ([Exists p], Inr (files p \<noteq> None))"

definition denotes_directory :: "fs \<Rightarrow> path \<Rightarrow> bool" where
  "denotes_directory files p = (case files p of Some (Folder _) \<Rightarrow> True | _ \<Rightarrow> False)"

definition isdir :: "fs \<Rightarrow> path \<Rightarrow> bool run" where
  "isdir files p = ([IsDir p], Inr (denotes_directory files p))"

text \<open>
  \<^verbatim>\<open>shutil.make_archive(base_name, "zip", root_dir)\<close>: the file it creates is \<^verbatim>\<open>base_name\<close>
  with the format's extension appended, as the library documents (\<^verbatim>\<open>base_name\<close> is ``the
  name of the file to create, including the path, minus any format-specific extension'').
\<close>

definition make_archive :: "world \<Rightarrow> fs \<Rightarrow> path \<Rightarrow> string \<Rightarrow> path \<Rightarrow> fs run" where
  "make_archive w files base_name fmt root_dir =
     call_returning w 0 (MakeArchive base_name fmt root_dir)
       (files(base_name @ ''.'' @ fmt \<mapsto> File (zip_size w root_dir)))"

text \<open>\<^verbatim>\<open>s.rstrip("/\\")\<close>: drop every trailing slash and backslash.\<close>

definition rstrip_seps :: "string \<Rightarrow> string" where
  "rstrip_seps s = rev (dropWhile (\<lambda>c. c = CHR ''/'' \<or> c = CHR 0x5C) (rev s))"

section \<open>The functions of \<^verbatim>\<open>main.py\<close>\<close>

definition archive_folder :: "world \<Rightarrow> fs \<Rightarrow> path \<Rightarrow> (path \<times> fs) run" where
  "archive_folder w files folder_path =
     bind_run (isdir files folder_path) (\<lambda>d.
       if \<not> d then return (folder_path, files)
       else
         let archive_path = rstrip_seps folder_path @ ''.zip'' in
         bind_run (make_archive w files folder_path ''zip'' folder_path) (\<lambda>files'.
           return (archive_path, files')))"

text \<open>
  The block \<^verbatim>\<open>if console_args.file is not None:\<close> of \<^verbatim>\<open>register\<close> (lines 261 to 271):
  the size is read first, then the path is tested. The comparisons with \<^verbatim>\<open>2e10\<close> and
  \<^verbatim>\<open>5e9\<close> are between an \<^verbatim>\<open>int\<close> and a float that is a whole number below \<open>2^53\<close>;
  Python compares them exactly, so they are written as integers.
\<close>

definition register_upload ::
  "world \<Rightarrow> nat \<Rightarrow> console_args \<Rightarrow> fs \<Rightarrow> credentials \<Rightarrow> unit run" where
  "register_upload w i args files creds =
     (case file_opt args of
        None \<Rightarrow> skip
      | Some f \<Rightarrow>
          bind_run (getsize files f) (\<lambda>file_size.
          bind_run (exists files f) (\<lambda>there.
            if there \<and> 0 < file_size \<and> file_size < 20000000000 then
              seq [
                (if file_size \<ge> 5000000000 then p_print LargeFileWarning else skip),
                call w i (UploadFile (public args) f creds)]
            else p_print FileNotFound)))"

text \<open>\<^verbatim>\<open>register\<close>, one entry per statement.\<close>

definition register ::
  "world \<Rightarrow> nat \<Rightarrow> console_args \<Rightarrow> fs \<Rightarrow> credentials \<Rightarrow> string \<Rightarrow> config \<Rightarrow> unit run" where
  "register w i args files creds executable_path cfg =
     seq [
       call w i (Launch executable_path),
       call w i CreateIncognitoBrowserContext,
       call w i NewPage,
       call w i (TypeName creds),
       call w i (TypePassword creds),
       call w i (FinishForm creds),
       call w i (MailLogin creds),
       sleep 1500,
       call w i GetMail,
       call w i (InitialSetup (inbox w i) creds),
       sleep 500,
       call w i BrowserClose,
       p_print VerifiedAccount,
       p_print (ShowCredentials (email creds) (password creds)),
       call w i (DeleteDefault creds),
       call w i (SaveCredentials creds (accountFormat cfg)),
       register_upload w i args files creds,
       (if (case loop args of None \<Rightarrow> True | Some n \<Rightarrow> n \<le> 1) then sys_exit 0 else skip)]"

definition generate_mail :: "world \<Rightarrow> nat \<Rightarrow> credentials run" where
  "generate_mail w i = call_returning w i GenerateMail (generated w i)"

text \<open>The body of the loop of \<^verbatim>\<open>loop_registrations\<close> (lines 216 to 220), for iteration \<open>i\<close>.\<close>

definition loop_iteration ::
  "world \<Rightarrow> console_args \<Rightarrow> fs \<Rightarrow> int \<Rightarrow> string \<Rightarrow> config \<Rightarrow> nat \<Rightarrow> unit run" where
  "loop_iteration w args files loop_count executable_path cfg i =
     seq [
       p_print (LoopProgress (int i + 1) loop_count),
       call w i ClearTmp,
       bind_run (generate_mail w i) (\<lambda>creds.
         register w i args files creds executable_path cfg)]"

text \<open>\<^verbatim>\<open>for _ in range(loop_count)\<close>: no iteration when \<open>loop_count \<le> 0\<close>.\<close>

definition loop_registrations ::
  "world \<Rightarrow> console_args \<Rightarrow> fs \<Rightarrow> int \<Rightarrow> string \<Rightarrow> config \<Rightarrow> unit run" where
  "loop_registrations w args files loop_count executable_path cfg =
     seq (map (loop_iteration w args files loop_count executable_path cfg)
            [0 ..< nat loop_count])"

definition setup_browser :: "world \<Rightarrow> fs \<Rightarrow> (string \<times> config) run" where
  "setup_browser w files =
     bind_run (call_returning w 0 ReadConfig (stored_config w)) (\<lambda>c.
     bind_run
       (case c of
          None \<Rightarrow>
            then_run (call w 0 WriteDefaultConfig)
              (bind_run (call_returning w 0 ConcreteReadConfig (default_config w)) (\<lambda>cfg.
                 return ('''', cfg)))
        | Some cfg \<Rightarrow> return (executablePath cfg, cfg))
       (\<lambda>(executable_path, cfg).
          if executable_path = [] then
            then_run (p_print FailedToFindBrowser)
              (bind_run (call_returning w 0 Input (typed_path w)) (\<lambda>typed.
               bind_run (exists files typed) (\<lambda>there.
                 if there then
                   then_run
                     (seq [p_print FoundExecutable,
                           call w 0 (WriteConfig ''executablePath'' typed cfg)])
                     (return (typed, cfg))
                 else
                   then_run (p_print FailedToFindExecutable) (sys_exit 1))))
          else return (executable_path, cfg)))"

text \<open>
  Lines 299 to 302 of the \<^verbatim>\<open>__main__\<close> block: \<^verbatim>\<open>if console_args.file:\<close> holds for a path
  that is given and not empty; a directory is archived and \<^verbatim>\<open>console_args.file\<close> is
  overwritten with what \<^verbatim>\<open>archive_folder\<close> returns.
\<close>

definition prepare_upload :: "world \<Rightarrow> console_args \<Rightarrow> fs \<Rightarrow> (console_args \<times> fs) run" where
  "prepare_upload w args files =
     (case file_opt args of
        None \<Rightarrow> return (args, files)
      | Some f \<Rightarrow>
          if f = [] then return (args, files)
          else
            bind_run (isdir files f) (\<lambda>d.
              if d then
                bind_run (archive_folder w files f) (\<lambda>(p, files').
                  then_run (p_print (FolderArchivedTo p))
                    (return (args\<lparr>file_opt := Some p\<rparr>, files')))
              else return (args, files)))"

text \<open>
  The \<^verbatim>\<open>__main__\<close> block, in two parts. Lines 277 to 287, up to the executable path
  (\<open>setup_browser\<close> above is \<^verbatim>\<open>setup()\<close>); \<^verbatim>\<open>convert_accounts\<close> is a single call here,
  and what it does with the file is \<open>convert_accounts\<close> below.
\<close>

definition startup :: "world \<Rightarrow> console_args \<Rightarrow> fs \<Rightarrow> (string \<times> config) run" where
  "startup w args files =
     then_run
       (seq [
          call w 0 ClearConsole,
          call w 0 CheckForUpdates,
          (if convert args then then_run (call w 0 ConvertAccounts) (sys_exit 0) else skip)])
       (bind_run (setup_browser w files) (\<lambda>(executable_path, cfg).
          if executable_path = [] then
            then_run (p_print FailedWhileSettingUp) (sys_exit 1)
          else return (executable_path, cfg)))"

text \<open>
  Lines 289 to 304: the mode. \<^verbatim>\<open>extract_credentials\<close> and \<^verbatim>\<open>keepalive\<close> are single calls
  here: what they do inside is not part of a provisioning run.
\<close>

definition main :: "world \<Rightarrow> console_args \<Rightarrow> fs \<Rightarrow> unit run" where
  "main w args files =
     bind_run (startup w args files) (\<lambda>(executable_path, cfg).
       if extract_opt args then call w 0 (ExtractCredentials (accountFormat cfg))
       else if keepalive args then call w 0 (Keepalive (verbose args))
       else if (case loop args of None \<Rightarrow> False | Some n \<Rightarrow> n > 1) then
         loop_registrations w args files (the (loop args)) executable_path cfg
       else
         then_run (call w 0 ClearTmp)
           (bind_run (generate_mail w 0) (\<lambda>creds.
            bind_run (prepare_upload w args files) (\<lambda>(args', files').
              register w 0 args' files' creds executable_path cfg))))"

section \<open>The credential record and its parser\<close>















section \<open>Notions the statements use\<close>

text \<open>
  The exit status the operating system sees: \<open>0\<close> after a normal end, the argument of
  \<^verbatim>\<open>sys.exit\<close>, and \<open>1\<close> after an exception that nobody caught.
\<close>

definition exit_status :: "abort + unit \<Rightarrow> int" where
  "exit_status r = (case r of Inr _ \<Rightarrow> 0 | Inl (SystemExit n) \<Rightarrow> n | Inl (Raise _) \<Rightarrow> 1)"

text \<open>
  A call that leaves the upload path as the command line gave it: no directory test, no
  archive, and a size check, an upload or an existence test only of \<^verbatim>\<open>console_args.file\<close>
  itself (the one other existence test of a run is the one \<^verbatim>\<open>setup\<close> makes of the browser
  path typed at its prompt).
\<close>

definition keeps_upload_path :: "world \<Rightarrow> console_args \<Rightarrow> action \<Rightarrow> bool" where
  "keeps_upload_path w args a =
     (case a of
        IsDir _ \<Rightarrow> False
      | MakeArchive _ _ _ \<Rightarrow> False
      | GetSize p \<Rightarrow> file_opt args = Some p
      | Exists p \<Rightarrow> file_opt args = Some p \<or> p = typed_path w
      | UploadFile _ p _ \<Rightarrow> file_opt args = Some p
      | _ \<Rightarrow> True)"

text \<open>The calls of \<^verbatim>\<open>register\<close> before its upload block, when none of them raises.\<close>

definition attempt_calls :: "world \<Rightarrow> nat \<Rightarrow> credentials \<Rightarrow> string \<Rightarrow> config \<Rightarrow> action list" where
  "attempt_calls w i creds executable_path cfg =
     [Launch executable_path, CreateIncognitoBrowserContext, NewPage, TypeName creds,
      TypePassword creds, FinishForm creds, MailLogin creds, Sleep 1500, GetMail,
      InitialSetup (inbox w i) creds, Sleep 500, BrowserClose, Print VerifiedAccount,
      Print (ShowCredentials (email creds) (password creds)), DeleteDefault creds,
      SaveCredentials creds (accountFormat cfg)]"

text \<open>
  Iteration \<open>i\<close> of the batch loop returns: neither \<^verbatim>\<open>clear_tmp\<close> nor \<^verbatim>\<open>generate_mail\<close>
  raises, and \<^verbatim>\<open>register\<close>, called with the credentials just generated, returns.
\<close>

definition iteration_returns ::
  "world \<Rightarrow> console_args \<Rightarrow> fs \<Rightarrow> string \<Rightarrow> config \<Rightarrow> nat \<Rightarrow> bool" where
  "iteration_returns w args files executable_path cfg i =
     (\<not> raises w i ClearTmp \<and> \<not> raises w i GenerateMail \<and>
      snd (register w i args files (generated w i) executable_path cfg) = Inr ())"

text \<open>The calls of iteration \<open>i\<close> of the batch loop when it returns.\<close>

definition iteration ::
  "world \<Rightarrow> console_args \<Rightarrow> fs \<Rightarrow> int \<Rightarrow> string \<Rightarrow> config \<Rightarrow> nat \<Rightarrow> action list" where
  "iteration w args files loop_count executable_path cfg i =
     [Print (LoopProgress (int i + 1) loop_count), ClearTmp, GenerateMail]
       @ fst (register w i args files (generated w i) executable_path cfg)"

text \<open>
  The credentials the calls of \<^verbatim>\<open>register\<close> in a run were given, in order: a call of
  \<^verbatim>\<open>register\<close> that gets as far as the sign-up form passes its credentials to
  \<^verbatim>\<open>type_name\<close>, once.
\<close>

definition credentials_used :: "action list \<Rightarrow> credentials list" where
  "credentials_used t = concat (map (\<lambda>a. case a of TypeName c \<Rightarrow> [c] | _ \<Rightarrow> []) t)"




section \<open>Sample inputs\<close>

definition alice :: credentials where
  "alice = \<lparr>name = ''Alice Ames'', email = ''alice@mail.test'', emailPassword = ''Xk2mail'', password = ''S3cretPw''\<rparr>"

definition bob :: credentials where
  "bob = \<lparr>name = ''Bob Brook'', email = ''bob@mail.test'', emailPassword = ''Qr7mail'', password = ''0therPw''\<rparr>"

definition chromium_config :: config where
  "chromium_config = \<lparr>executablePath = ''/usr/bin/chromium'', accountFormat = []\<rparr>"

text \<open>A world in which no call raises and the confirmation mail is there.\<close>

definition calm :: world where
  "calm = \<lparr>raises = (\<lambda>i a. False),
            generated = (\<lambda>i. if i = 0 then alice else bob),
            inbox = (\<lambda>i. Some ''confirm''),
            stored_config = Some chromium_config,
            default_config = chromium_config\<lparr>executablePath := []\<rparr>,
            typed_path = ''/no/such/browser'',
            zip_size = (\<lambda>p. 2048)\<rparr>"

text \<open>The same world, except that one given call raises in attempt \<open>0\<close>.\<close>

definition failing_at :: "action \<Rightarrow> world" where
  "failing_at a = calm\<lparr>raises := (\<lambda>i b. i = 0 \<and> b = a)\<rparr>"

definition plain_args :: console_args where
  "plain_args = \<lparr>keepalive = False, extract_opt = False, verbose = False, file_opt = None,
                 public = False, loop = None, convert = False\<rparr>"

definition batch_args :: "int \<Rightarrow> console_args" where
  "batch_args n = plain_args\<lparr>loop := Some n\<rparr>"

definition upload_args :: "path \<Rightarrow> console_args" where
  "upload_args p = plain_args\<lparr>file_opt := Some p\<rparr>"

definition disk :: fs where
  "disk = [''report.pdf'' \<mapsto> File 1000, ''huge.iso'' \<mapsto> File 20000000000,
           ''photos'' \<mapsto> Folder 4096, ''photos/'' \<mapsto> Folder 4096]"

section \<open>Rules for sequencing\<close>

lemma bind_run_Inl [simp]: "bind_run (t, Inl a) f = (t, Inl a)"
  by (simp add: bind_run_def)

lemma bind_run_Inr [simp]: "bind_run (t, Inr x) f = (t @ fst (f x), snd (f x))"
  by (simp add: bind_run_def split: prod.splits)

lemma then_run_Inl [simp]: "then_run (t, Inl a) m = (t, Inl a)"
  by (simp add: then_run_def)

lemma then_run_Inr [simp]: "then_run (t, Inr x) m = (t @ fst m, snd m)"
  by (simp add: then_run_def)

lemmas run_defs = call_def call_returning_def p_print_def sleep_def sys_exit_def
  return_def skip_def getsize_def exists_def isdir_def

lemmas sample_defs = alice_def bob_def chromium_config_def calm_def failing_at_def
  plain_args_def batch_args_def upload_args_def disk_def

text \<open>A call seen in a block was made by one of its statements.\<close>

lemma then_run_trace: "set (fst (then_run m n)) \<subseteq> set (fst m) \<union> set (fst n)"
  by (cases m; cases "snd m") auto

lemma seq_trace: "a \<in> set (fst (seq ms)) \<Longrightarrow> \<exists>m \<in> set ms. a \<in> set (fst m)"
proof (induction ms)
  case Nil
  then show ?case by (simp add: skip_def return_def)
next
  case (Cons m ms)
  then show ?case using then_run_trace [of m "seq ms"] by auto
qed

text \<open>A block whose statements all return makes all their calls and returns.\<close>

lemma seq_all_return:
  "(\<And>m. m \<in> set ms \<Longrightarrow> snd m = Inr ()) \<Longrightarrow> seq ms = (concat (map fst ms), Inr ())"
proof (induction ms)
  case Nil
  show ?case by (simp add: skip_def return_def)
next
  case (Cons m ms)
  then have "snd m = Inr ()" and "seq ms = (concat (map fst ms), Inr ())" by simp_all
  then show ?case by (cases m) simp
qed

lemma count_list_concat:
  "count_list (concat xss) a = sum_list (map (\<lambda>xs. count_list xs a) xss)"
  by (induction xss) simp_all

section \<open>The browser session\<close>

text \<open>
  C1, as amended. \<^verbatim>\<open>register\<close> calls \<^verbatim>\<open>browser.close()\<close> exactly once in a run in which
  the launch and the eight calls that follow it (context, page, name, password, form,
  mailbox login, mail, verification) all return, and not at all in a run in which one of
  them raises: the close is a plain statement after them, with no \<^verbatim>\<open>try\<close> around it.
\<close>

theorem register_close_count:
  "count_list (fst (register w i args files creds exe cfg)) BrowserClose =
     (if raises w i (Launch exe) \<or> raises w i CreateIncognitoBrowserContext \<or>
         raises w i NewPage \<or> raises w i (TypeName creds) \<or>
         raises w i (TypePassword creds) \<or> raises w i (FinishForm creds) \<or>
         raises w i (MailLogin creds) \<or> raises w i GetMail \<or>
         raises w i (InitialSetup (inbox w i) creds)
      then 0 else 1)"
  by (simp add: register_def register_upload_def run_defs split: option.splits)

theorem register_close_count_witness:
  "count_list (fst (register calm 0 plain_args disk alice ''/usr/bin/chromium'' chromium_config))
     BrowserClose = 1"
  using register_close_count [of calm 0 plain_args disk alice "''/usr/bin/chromium''"
      chromium_config]
  by (simp add: calm_def)

text \<open>
  C1 as stated fails: when filling the name field raises, the run ends there and the
  browser that was launched is never closed.
\<close>

theorem register_unclosed_counterexample:
  "register (failing_at (TypeName alice)) 0 plain_args disk alice ''/usr/bin/chromium''
      chromium_config =
     ([Launch ''/usr/bin/chromium'', CreateIncognitoBrowserContext, NewPage, TypeName alice],
      Inl (Raise (CallFailed (TypeName alice))))
   \<and> count_list (fst (register (failing_at (TypeName alice)) 0 plain_args disk alice
         ''/usr/bin/chromium'' chromium_config)) BrowserClose \<noteq> 1"
  by (simp add: register_def register_upload_def run_defs sample_defs)

section \<open>The mailbox poll\<close>

text \<open>
  C4, as amended. \<^verbatim>\<open>register\<close> polls the mailbox at most once in any run. When the calls
  up to the mailbox login return, the run is: one fixed delay of 1.5 seconds, then one
  \<^verbatim>\<open>get_mail\<close>. If that call raises, the run ends with that exception, with no second poll
  and no close of the browser; if it returns, whatever it returned (also \<^verbatim>\<open>None\<close>) goes
  to \<^verbatim>\<open>initial_setup\<close>. \<^verbatim>\<open>register\<close> has no retry, no back-off and no deadline of its own.
\<close>

theorem register_polls_once:
  "count_list (fst (register w i args files creds exe cfg)) GetMail \<le> 1
   \<and> (\<not> (raises w i (Launch exe) \<or> raises w i CreateIncognitoBrowserContext \<or>
           raises w i NewPage \<or> raises w i (TypeName creds) \<or>
           raises w i (TypePassword creds) \<or> raises w i (FinishForm creds) \<or>
           raises w i (MailLogin creds)) \<longrightarrow>
        take 9 (fst (register w i args files creds exe cfg)) =
          [Launch exe, CreateIncognitoBrowserContext, NewPage, TypeName creds,
           TypePassword creds, FinishForm creds, MailLogin creds, Sleep 1500, GetMail]
        \<and> (if raises w i GetMail
            then register w i args files creds exe cfg =
              ([Launch exe, CreateIncognitoBrowserContext, NewPage, TypeName creds,
                TypePassword creds, FinishForm creds, MailLogin creds, Sleep 1500, GetMail],
               Inl (Raise (CallFailed GetMail)))
            else take 1 (drop 9 (fst (register w i args files creds exe cfg))) =
              [InitialSetup (inbox w i) creds]))"
  by (simp add: register_def register_upload_def run_defs split: option.splits)

theorem register_polls_once_witness:
  "register (failing_at GetMail) 0 plain_args disk alice ''/usr/bin/chromium'' chromium_config =
     ([Launch ''/usr/bin/chromium'', CreateIncognitoBrowserContext, NewPage, TypeName alice,
       TypePassword alice, FinishForm alice, MailLogin alice, Sleep 1500, GetMail],
      Inl (Raise (CallFailed GetMail)))"
  using register_polls_once [of "failing_at GetMail" 0 plain_args disk alice
      "''/usr/bin/chromium''" chromium_config]
  by (simp add: failing_at_def calm_def)

text \<open>
  C4 as stated fails. A poll that raises is the only poll of the run, and the run ends
  with the exception of \<^verbatim>\<open>get_mail\<close>; and when the mailbox has no message (\<^verbatim>\<open>get_mail\<close>
  returns \<^verbatim>\<open>None\<close>), the run goes on to the verification step after that one poll.
\<close>

theorem register_no_retry_counterexample:
  "count_list (fst (register (failing_at GetMail) 0 plain_args disk alice ''/usr/bin/chromium''
       chromium_config)) GetMail = 1
   \<and> snd (register (failing_at GetMail) 0 plain_args disk alice ''/usr/bin/chromium''
       chromium_config) = Inl (Raise (CallFailed GetMail))
   \<and> register (calm\<lparr>inbox := (\<lambda>i. None)\<rparr>) 0 plain_args disk alice ''/usr/bin/chromium''
       chromium_config =
     ([Launch ''/usr/bin/chromium'', CreateIncognitoBrowserContext, NewPage, TypeName alice,
       TypePassword alice, FinishForm alice, MailLogin alice, Sleep 1500, GetMail,
       InitialSetup None alice, Sleep 500, BrowserClose, Print VerifiedAccount,
       Print (ShowCredentials ''alice@mail.test'' ''S3cretPw''), DeleteDefault alice,
       SaveCredentials alice []],
      Inl (SystemExit 0))"
  by (simp add: register_def register_upload_def run_defs sample_defs)

section \<open>The upload decision\<close>

text \<open>
  For a path that is there, the decision is the one of the table: no upload and the
  message ``File not found.'' for a size of \<open>0\<close> or of \<open>2\<cdot>10^10\<close> and more, a warning and
  the upload from \<open>5\<cdot>10^9\<close>, the upload alone below.
\<close>

lemma register_upload_existing:
  assumes "file_opt args = Some f" and "files f = Some e"
  shows "register_upload w i args files creds =
     (if st_size e \<le> 0 \<or> 20000000000 \<le> st_size e then
        ([GetSize f, Exists f, Print FileNotFound], Inr ())
      else if 5000000000 \<le> st_size e then
        ([GetSize f, Exists f, Print LargeFileWarning, UploadFile (public args) f creds],
         if raises w i (UploadFile (public args) f creds)
         then Inl (Raise (CallFailed (UploadFile (public args) f creds))) else Inr ())
      else
        ([GetSize f, Exists f, UploadFile (public args) f creds],
         if raises w i (UploadFile (public args) f creds)
         then Inl (Raise (CallFailed (UploadFile (public args) f creds))) else Inr ()))"
  using assms by (simp add: register_upload_def run_defs)

text \<open>
  C2, at the input where the code leaves the table: for a path that is not there,
  \<^verbatim>\<open>os.path.getsize\<close> raises before \<^verbatim>\<open>os.path.exists\<close> is asked, so the branch that prints
  ``File not found.'' is not reached.
\<close>

theorem upload_missing_path_raises:
  "register_upload calm 0 (upload_args ''gone.bin'') disk alice =
     ([GetSize ''gone.bin''], Inl (Raise (FileNotFoundError ''gone.bin'')))"
  by (simp add: register_upload_def run_defs sample_defs)

text \<open>
  C6, at the same input seen from \<^verbatim>\<open>register\<close>: the account is verified and the
  credentials are saved, and then the attempt ends with the exception instead of
  skipping the upload.
\<close>

theorem register_missing_upload_path_fails:
  "register calm 0 (upload_args ''gone.bin'') disk alice ''/usr/bin/chromium'' chromium_config =
     ([Launch ''/usr/bin/chromium'', CreateIncognitoBrowserContext, NewPage, TypeName alice,
       TypePassword alice, FinishForm alice, MailLogin alice, Sleep 1500, GetMail,
       InitialSetup (Some ''confirm'') alice, Sleep 500, BrowserClose, Print VerifiedAccount,
       Print (ShowCredentials ''alice@mail.test'' ''S3cretPw''), DeleteDefault alice,
       SaveCredentials alice [], GetSize ''gone.bin''],
      Inl (Raise (FileNotFoundError ''gone.bin'')))"
  by (simp add: register_def register_upload_def run_defs sample_defs)

text \<open>
  A path that is there and out of bounds does what C6 says: the upload is skipped and
  the run goes on (here into a batch, so \<^verbatim>\<open>register\<close> returns).
\<close>

lemma register_skips_oversized_upload:
  "register calm 1 ((upload_args ''huge.iso'')\<lparr>loop := Some 3\<rparr>) disk bob ''/usr/bin/chromium''
      chromium_config =
     ([Launch ''/usr/bin/chromium'', CreateIncognitoBrowserContext, NewPage, TypeName bob,
       TypePassword bob, FinishForm bob, MailLogin bob, Sleep 1500, GetMail,
       InitialSetup (Some ''confirm'') bob, Sleep 500, BrowserClose, Print VerifiedAccount,
       Print (ShowCredentials ''bob@mail.test'' ''0therPw''), DeleteDefault bob,
       SaveCredentials bob [], GetSize ''huge.iso'', Exists ''huge.iso'', Print FileNotFound],
      Inr ())"
  by (simp add: register_def register_upload_def run_defs sample_defs)

section \<open>Archiving\<close>

text \<open>
  C9. For a path that does not denote a directory (a file, or nothing at all),
  \<^verbatim>\<open>archive_folder\<close> makes the directory test and nothing else: it returns the path it
  was given and leaves the file system as it was.
\<close>

theorem archive_folder_not_directory:
  "\<not> denotes_directory files p \<Longrightarrow> archive_folder w files p = ([IsDir p], Inr (p, files))"
  by (simp add: archive_folder_def run_defs)

theorem archive_folder_not_directory_witness:
  "\<not> denotes_directory disk ''report.pdf'' \<and> \<not> denotes_directory disk ''gone.bin''
   \<and> archive_folder calm disk ''report.pdf'' = ([IsDir ''report.pdf''], Inr (''report.pdf'', disk))
   \<and> archive_folder calm disk ''gone.bin'' = ([IsDir ''gone.bin''], Inr (''gone.bin'', disk))"
proof -
  have f: "\<not> denotes_directory disk ''report.pdf''"
    by (simp add: denotes_directory_def disk_def)
  have g: "\<not> denotes_directory disk ''gone.bin''"
    by (simp add: denotes_directory_def disk_def)
  show ?thesis
    using f g archive_folder_not_directory [OF f, of calm]
      archive_folder_not_directory [OF g, of calm] by simp
qed

text \<open>
  For a directory, the archive is written to the path as given plus \<^verbatim>\<open>.zip\<close>, and the
  path returned is the path without its trailing separators plus \<^verbatim>\<open>.zip\<close>.
\<close>

lemma archive_folder_directory:
  assumes "denotes_directory files p" and "\<not> raises w 0 (MakeArchive p ''zip'' p)"
  shows "archive_folder w files p =
     ([IsDir p, MakeArchive p ''zip'' p],
      Inr (rstrip_seps p @ ''.zip'', files(p @ ''.zip'' \<mapsto> File (zip_size w p))))"
  using assms by (simp add: archive_folder_def make_archive_def run_defs)

text \<open>The two agree for a path with no trailing separator: the path returned is the archive.\<close>

lemma archive_folder_plain_directory:
  assumes "denotes_directory files p" and "\<not> raises w 0 (MakeArchive p ''zip'' p)"
    and "rstrip_seps p = p"
  shows "\<exists>files'. archive_folder w files p =
           ([IsDir p, MakeArchive p ''zip'' p], Inr (p @ ''.zip'', files'))
         \<and> files' (p @ ''.zip'') = Some (File (zip_size w p))"
  using assms by (simp add: archive_folder_def make_archive_def run_defs)

text \<open>
  C5, at the input where they differ: for the directory \<^verbatim>\<open>photos/\<close> the archive is written
  to \<^verbatim>\<open>photos/.zip\<close> and the path returned is \<^verbatim>\<open>photos.zip\<close>, which is not there; the
  single-shot run then verifies the account, saves the credentials and ends with the
  exception of \<^verbatim>\<open>os.path.getsize\<close>.
\<close>

theorem directory_with_trailing_slash:
  "archive_folder calm disk ''photos/'' =
     ([IsDir ''photos/'', MakeArchive ''photos/'' ''zip'' ''photos/''],
      Inr (''photos.zip'', disk(''photos/.zip'' \<mapsto> File 2048)))
   \<and> (disk(''photos/.zip'' \<mapsto> File 2048)) ''photos.zip'' = None
   \<and> main calm (upload_args ''photos/'') disk =
     ([ClearConsole, CheckForUpdates, ReadConfig, ClearTmp, GenerateMail, IsDir ''photos/'',
       IsDir ''photos/'', MakeArchive ''photos/'' ''zip'' ''photos/'',
       Print (FolderArchivedTo ''photos.zip''),
       Launch ''/usr/bin/chromium'', CreateIncognitoBrowserContext, NewPage, TypeName alice,
       TypePassword alice, FinishForm alice, MailLogin alice, Sleep 1500, GetMail,
       InitialSetup (Some ''confirm'') alice, Sleep 500, BrowserClose, Print VerifiedAccount,
       Print (ShowCredentials ''alice@mail.test'' ''S3cretPw''), DeleteDefault alice,
       SaveCredentials alice [], GetSize ''photos.zip''],
      Inl (Raise (FileNotFoundError ''photos.zip'')))"
  by (simp add: main_def startup_def setup_browser_def prepare_upload_def archive_folder_def
      make_archive_def generate_mail_def register_def register_upload_def rstrip_seps_def
      denotes_directory_def run_defs sample_defs)

text \<open>Without the trailing separator the same run uploads the archive and exits with 0.\<close>

lemma directory_without_trailing_slash:
  "main calm (upload_args ''photos'') disk =
     ([ClearConsole, CheckForUpdates, ReadConfig, ClearTmp, GenerateMail, IsDir ''photos'',
       IsDir ''photos'', MakeArchive ''photos'' ''zip'' ''photos'',
       Print (FolderArchivedTo ''photos.zip''),
       Launch ''/usr/bin/chromium'', CreateIncognitoBrowserContext, NewPage, TypeName alice,
       TypePassword alice, FinishForm alice, MailLogin alice, Sleep 1500, GetMail,
       InitialSetup (Some ''confirm'') alice, Sleep 500, BrowserClose, Print VerifiedAccount,
       Print (ShowCredentials ''alice@mail.test'' ''S3cretPw''), DeleteDefault alice,
       SaveCredentials alice [], GetSize ''photos.zip'', Exists ''photos.zip'',
       UploadFile False ''photos.zip'' alice],
      Inl (SystemExit 0))"
  by (simp add: main_def startup_def setup_browser_def prepare_upload_def archive_folder_def
      make_archive_def generate_mail_def register_def register_upload_def rstrip_seps_def
      denotes_directory_def run_defs sample_defs)

section \<open>The batch loop\<close>

lemma register_never_clears_tmp:
  "count_list (fst (register w i args files creds exe cfg)) ClearTmp = 0"
  by (simp add: register_def register_upload_def run_defs split: option.splits)

lemma register_launches_once:
  "count_list (fst (register w i args files creds exe cfg)) (Launch exe) = 1"
  by (simp add: register_def register_upload_def run_defs split: option.splits)

lemma register_types_name_once:
  "snd (register w i args files creds exe cfg) = Inr () \<Longrightarrow>
     credentials_used (fst (register w i args files creds exe cfg)) = [creds]"
  by (simp add: register_def register_upload_def run_defs credentials_used_def
      split: option.splits if_splits)

lemma upt2: "[0 ..< (2::nat)] = [0, Suc 0]"
  by (simp add: numeral_2_eq_2)

lemma credentials_used_append:
  "credentials_used (s @ t) = credentials_used s @ credentials_used t"
  by (simp add: credentials_used_def)

lemma credentials_used_concat:
  "credentials_used (concat ts) = concat (map credentials_used ts)"
  by (induction ts) (simp_all add: credentials_used_append, simp add: credentials_used_def)

lemma seq_stops:
  assumes "\<And>m. m \<in> set ms \<Longrightarrow> snd m = Inr ()" and "snd m' = Inl a"
  shows "seq (ms @ m' # rest) = (concat (map fst ms) @ fst m', Inl a)"
  using assms(1)
proof (induction ms)
  case Nil
  from assms(2) show ?case by (cases m') simp
next
  case (Cons m ms)
  then have "snd m = Inr ()"
    and "seq (ms @ m' # rest) = (concat (map fst ms) @ fst m', Inl a)" by simp_all
  then show ?case by (cases m) simp
qed

lemma then_run_nothing: "fst (then_run m ([], r)) = fst m"
  by (cases m; cases "snd m") auto

lemma loop_iteration_returns:
  "iteration_returns w args files exe cfg i \<Longrightarrow>
     loop_iteration w args files loop_count exe cfg i =
       (iteration w args files loop_count exe cfg i, Inr ())"
  by (simp add: iteration_returns_def loop_iteration_def iteration_def generate_mail_def run_defs)

lemma loop_iteration_stops:
  "\<not> iteration_returns w args files exe cfg i \<Longrightarrow>
     \<exists>a. snd (loop_iteration w args files loop_count exe cfg i) = Inl a"
  by (cases "snd (register w i args files (generated w i) exe cfg)")
     (auto simp add: iteration_returns_def loop_iteration_def generate_mail_def run_defs)

lemma loop_iteration_clears_tmp_once:
  "count_list (fst (loop_iteration w args files loop_count exe cfg i)) ClearTmp = 1"
  by (simp add: loop_iteration_def generate_mail_def run_defs register_never_clears_tmp
      then_run_nothing)

text \<open>
  C3, as amended. The batch runs its iterations in order; each one prints its progress
  line, resets the working directory, generates credentials and calls \<^verbatim>\<open>register\<close> with
  the credentials just generated. If every one of the \<open>N\<close> iterations returns, these are
  all the calls of the batch: the working directory is reset \<open>N\<close> times, the browser is
  launched \<open>N\<close> times, the credentials the calls of \<^verbatim>\<open>register\<close> were given are the \<open>N\<close>
  values of \<^verbatim>\<open>generate_mail\<close> in order, and they are distinct when these values are. If
  iteration \<open>k\<close> is the first that does not return, the batch is the \<open>k\<close> iterations
  before it followed by the calls of iteration \<open>k\<close>, it ends as that iteration ends, and
  the working directory was reset \<open>k + 1\<close> times: no later iteration is run.
\<close>

theorem loop_registrations_in_order:
  "((\<forall>i < nat loop_count. iteration_returns w args files exe cfg i) \<longrightarrow>
      loop_registrations w args files loop_count exe cfg =
        (concat (map (iteration w args files loop_count exe cfg) [0 ..< nat loop_count]), Inr ())
      \<and> count_list (fst (loop_registrations w args files loop_count exe cfg)) ClearTmp
          = nat loop_count
      \<and> count_list (fst (loop_registrations w args files loop_count exe cfg)) (Launch exe)
          = nat loop_count
      \<and> credentials_used (fst (loop_registrations w args files loop_count exe cfg))
          = map (generated w) [0 ..< nat loop_count]
      \<and> (distinct (map (generated w) [0 ..< nat loop_count]) \<longrightarrow>
           distinct (credentials_used (fst (loop_registrations w args files loop_count exe cfg)))))
   \<and> (\<forall>k < nat loop_count.
        (\<forall>i < k. iteration_returns w args files exe cfg i)
        \<and> \<not> iteration_returns w args files exe cfg k \<longrightarrow>
        loop_registrations w args files loop_count exe cfg =
          (concat (map (iteration w args files loop_count exe cfg) [0 ..< k])
             @ fst (loop_iteration w args files loop_count exe cfg k),
           snd (loop_iteration w args files loop_count exe cfg k))
        \<and> snd (loop_iteration w args files loop_count exe cfg k) \<noteq> Inr ()
        \<and> count_list (fst (loop_registrations w args files loop_count exe cfg)) ClearTmp
            = k + 1)"
proof -
  let ?N = "nat loop_count"
  let ?body = "loop_iteration w args files loop_count exe cfg"
  let ?calls = "iteration w args files loop_count exe cfg"
  have c1: "count_list (?calls i) ClearTmp = 1" for i
    by (simp add: iteration_def register_never_clears_tmp)
  have c2: "count_list (?calls i) (Launch exe) = 1" for i
    by (simp add: iteration_def register_launches_once)
  have whole: "loop_registrations w args files loop_count exe cfg =
        (concat (map ?calls [0 ..< ?N]), Inr ())"
    if ok: "\<forall>i < ?N. iteration_returns w args files exe cfg i"
  proof -
    have "seq (map ?body [0 ..< ?N]) = (concat (map fst (map ?body [0 ..< ?N])), Inr ())"
      by (rule seq_all_return) (auto simp: ok loop_iteration_returns)
    moreover have "map fst (map ?body [0 ..< ?N]) = map ?calls [0 ..< ?N]"
      by (simp add: ok loop_iteration_returns)
    ultimately show ?thesis
      by (simp only: loop_registrations_def)
  qed
  have used: "credentials_used (?calls i) = [generated w i]"
    if "iteration_returns w args files exe cfg i" for i
  proof -
    have "credentials_used [Print (LoopProgress (int i + 1) loop_count), ClearTmp, GenerateMail]
        = []"
      by (simp add: credentials_used_def)
    with that show ?thesis
      by (simp only: iteration_def iteration_returns_def credentials_used_append
          register_types_name_once append_Nil)
  qed
  have part: "loop_registrations w args files loop_count exe cfg =
        (concat (map ?calls [0 ..< k]) @ fst (?body k), snd (?body k))
      \<and> snd (?body k) \<noteq> Inr ()
      \<and> count_list (fst (loop_registrations w args files loop_count exe cfg)) ClearTmp = k + 1"
    if k: "k < ?N" and ok: "\<forall>i < k. iteration_returns w args files exe cfg i"
      and stop: "\<not> iteration_returns w args files exe cfg k" for k
  proof -
    from loop_iteration_stops [OF stop, of loop_count]
    obtain a where a: "snd (?body k) = Inl a" by blast
    from k have range: "[0 ..< ?N] = [0 ..< k] @ k # [Suc k ..< ?N]"
      by (metis le_add1 less_imp_add_positive upt_add_eq_append upt_conv_Cons plus_nat.add_0)
    have st: "seq (map ?body [0 ..< k] @ ?body k # map ?body [Suc k ..< ?N]) =
        (concat (map fst (map ?body [0 ..< k])) @ fst (?body k), Inl a)"
      by (rule seq_stops) (auto simp: ok loop_iteration_returns a)
    have tr: "map fst (map ?body [0 ..< k]) = map ?calls [0 ..< k]"
      by (simp add: ok loop_iteration_returns)
    have "loop_registrations w args files loop_count exe cfg =
        seq (map ?body [0 ..< k] @ ?body k # map ?body [Suc k ..< ?N])"
      unfolding loop_registrations_def by (subst range) (simp only: map_append list.map)
    with st tr have run: "loop_registrations w args files loop_count exe cfg =
        (concat (map ?calls [0 ..< k]) @ fst (?body k), snd (?body k))"
      by (simp only: a)
    show ?thesis
      by (simp add: run a count_list_concat c1 comp_def sum_list_triv
          loop_iteration_clears_tmp_once)
  qed
  have first: "(\<forall>i < ?N. iteration_returns w args files exe cfg i) \<longrightarrow>
      loop_registrations w args files loop_count exe cfg =
        (concat (map ?calls [0 ..< ?N]), Inr ())
      \<and> count_list (fst (loop_registrations w args files loop_count exe cfg)) ClearTmp = ?N
      \<and> count_list (fst (loop_registrations w args files loop_count exe cfg)) (Launch exe) = ?N
      \<and> credentials_used (fst (loop_registrations w args files loop_count exe cfg))
          = map (generated w) [0 ..< ?N]
      \<and> (distinct (map (generated w) [0 ..< ?N]) \<longrightarrow>
           distinct (credentials_used (fst (loop_registrations w args files loop_count exe cfg))))"
  proof (intro impI conjI)
    assume ok: "\<forall>i < ?N. iteration_returns w args files exe cfg i"
    show "loop_registrations w args files loop_count exe cfg =
        (concat (map ?calls [0 ..< ?N]), Inr ())"
      by (rule whole [OF ok])
    show "count_list (fst (loop_registrations w args files loop_count exe cfg)) ClearTmp = ?N"
      by (simp add: whole [OF ok] count_list_concat c1 comp_def sum_list_triv)
    show "count_list (fst (loop_registrations w args files loop_count exe cfg)) (Launch exe) = ?N"
      by (simp add: whole [OF ok] count_list_concat c2 comp_def sum_list_triv)
    show u: "credentials_used (fst (loop_registrations w args files loop_count exe cfg))
        = map (generated w) [0 ..< ?N]"
    proof -
      have "map credentials_used (map ?calls [0 ..< ?N]) = map (\<lambda>i. [generated w i]) [0 ..< ?N]"
        using ok by (simp add: used)
      then show ?thesis
        by (simp add: whole [OF ok] credentials_used_concat del: map_map)
    qed
    show "distinct (credentials_used (fst (loop_registrations w args files loop_count exe cfg)))"
      if "distinct (map (generated w) [0 ..< ?N])"
      using that by (simp only: u)
  qed
  from first part show ?thesis by blast
qed

theorem loop_registrations_in_order_witness:
  "loop_registrations calm (batch_args 2) disk 2 ''/usr/bin/chromium'' chromium_config =
     ([Print (LoopProgress 1 2), ClearTmp, GenerateMail,
       Launch ''/usr/bin/chromium'', CreateIncognitoBrowserContext, NewPage, TypeName alice,
       TypePassword alice, FinishForm alice, MailLogin alice, Sleep 1500, GetMail,
       InitialSetup (Some ''confirm'') alice, Sleep 500, BrowserClose, Print VerifiedAccount,
       Print (ShowCredentials ''alice@mail.test'' ''S3cretPw''), DeleteDefault alice,
       SaveCredentials alice [],
       Print (LoopProgress 2 2), ClearTmp, GenerateMail,
       Launch ''/usr/bin/chromium'', CreateIncognitoBrowserContext, NewPage, TypeName bob,
       TypePassword bob, FinishForm bob, MailLogin bob, Sleep 1500, GetMail,
       InitialSetup (Some ''confirm'') bob, Sleep 500, BrowserClose, Print VerifiedAccount,
       Print (ShowCredentials ''bob@mail.test'' ''0therPw''), DeleteDefault bob,
       SaveCredentials bob []],
      Inr ())
   \<and> count_list (fst (loop_registrations calm (batch_args 2) disk 2 ''/usr/bin/chromium''
        chromium_config)) ClearTmp = 2
   \<and> credentials_used (fst (loop_registrations calm (batch_args 2) disk 2 ''/usr/bin/chromium''
        chromium_config)) = [alice, bob]
   \<and> distinct (credentials_used (fst (loop_registrations calm (batch_args 2) disk 2
        ''/usr/bin/chromium'' chromium_config)))
   \<and> loop_registrations (failing_at GenerateMail) (batch_args 2) disk 2 ''/usr/bin/chromium''
        chromium_config =
     ([Print (LoopProgress 1 2), ClearTmp, GenerateMail], Inl (Raise (CallFailed GenerateMail)))"
proof -
  have ok: "iteration_returns calm (batch_args 2) disk ''/usr/bin/chromium'' chromium_config i"
    for i
    by (simp add: iteration_returns_def register_def register_upload_def run_defs calm_def
        batch_args_def plain_args_def)
  have r: "fst (register calm i (batch_args 2) disk c ''/usr/bin/chromium'' chromium_config) =
      [Launch ''/usr/bin/chromium'', CreateIncognitoBrowserContext, NewPage, TypeName c,
       TypePassword c, FinishForm c, MailLogin c, Sleep 1500, GetMail,
       InitialSetup (Some ''confirm'') c, Sleep 500, BrowserClose, Print VerifiedAccount,
       Print (ShowCredentials (email c) (password c)), DeleteDefault c,
       SaveCredentials c []]" for i c
    by (simp add: register_def register_upload_def run_defs calm_def batch_args_def
        plain_args_def chromium_config_def)
  have g: "generated calm 0 = alice" "generated calm (Suc 0) = bob"
    by (simp_all add: calm_def)
  have d: "alice \<noteq> bob"
    by (simp add: alice_def bob_def)
  have stop: "\<not> iteration_returns (failing_at GenerateMail) (batch_args 2) disk
      ''/usr/bin/chromium'' chromium_config 0"
    by (simp add: iteration_returns_def failing_at_def)
  have s: "loop_iteration (failing_at GenerateMail) (batch_args 2) disk 2 ''/usr/bin/chromium''
      chromium_config 0 =
     ([Print (LoopProgress 1 2), ClearTmp, GenerateMail], Inl (Raise (CallFailed GenerateMail)))"
    by (simp add: loop_iteration_def generate_mail_def run_defs failing_at_def calm_def)
  have f: "loop_registrations (failing_at GenerateMail) (batch_args 2) disk 2
      ''/usr/bin/chromium'' chromium_config =
     ([Print (LoopProgress 1 2), ClearTmp, GenerateMail], Inl (Raise (CallFailed GenerateMail)))"
    using loop_registrations_in_order [of 2 "failing_at GenerateMail" "batch_args 2" disk
        "''/usr/bin/chromium''" chromium_config, THEN conjunct2, THEN spec, of 0] stop
    by (simp add: s)
  show ?thesis
    using loop_registrations_in_order [of 2 calm "batch_args 2" disk "''/usr/bin/chromium''"
        chromium_config, THEN conjunct1]
    by (simp add: ok f upt2 iteration_def r g d)
      (simp add: credentials_used_def alice_def bob_def)
qed

text \<open>
  C3 as stated fails twice. When the browser launch of the first of two iterations
  raises, the batch ends there, after one reset and one call of \<^verbatim>\<open>register\<close>. And when
  \<^verbatim>\<open>generate_mail\<close> returns the same value twice, \<^verbatim>\<open>register\<close> is called twice with the
  same credentials: the loop passes on what it is given.
\<close>

theorem loop_registrations_abort_counterexample:
  "loop_registrations (failing_at (Launch ''/usr/bin/chromium'')) (batch_args 2) disk 2
      ''/usr/bin/chromium'' chromium_config =
     ([Print (LoopProgress 1 2), ClearTmp, GenerateMail, Launch ''/usr/bin/chromium''],
      Inl (Raise (CallFailed (Launch ''/usr/bin/chromium''))))
   \<and> count_list (fst (loop_registrations (failing_at (Launch ''/usr/bin/chromium''))
        (batch_args 2) disk 2 ''/usr/bin/chromium'' chromium_config)) ClearTmp \<noteq> 2
   \<and> credentials_used (fst (loop_registrations (calm\<lparr>generated := (\<lambda>i. alice)\<rparr>)
        (batch_args 2) disk 2 ''/usr/bin/chromium'' chromium_config)) = [alice, alice]
   \<and> \<not> distinct (credentials_used (fst (loop_registrations (calm\<lparr>generated := (\<lambda>i. alice)\<rparr>)
        (batch_args 2) disk 2 ''/usr/bin/chromium'' chromium_config)))"
  by (simp add: loop_registrations_def loop_iteration_def upt2 generate_mail_def register_def
      register_upload_def credentials_used_def run_defs sample_defs)

section \<open>Start-up\<close>

lemma setup_browser_gives_up:
  assumes "case stored_config w of None \<Rightarrow> True | Some cfg \<Rightarrow> executablePath cfg = []"
    and "files (typed_path w) = None"
  shows "\<exists>t a. setup_browser w files = (t, Inl a)
     \<and> set t \<subseteq> {ReadConfig, WriteDefaultConfig, ConcreteReadConfig,
          Print FailedToFindBrowser, Input, Exists (typed_path w), Print FailedToFindExecutable}
     \<and> exit_status (Inl a) \<noteq> 0
     \<and> ((\<forall>b. \<not> raises w 0 b) \<longrightarrow> a = SystemExit 1)"
  using assms
  by (cases "stored_config w")
     (auto simp add: setup_browser_def exit_status_def run_defs)

text \<open>
  C7. When \<^verbatim>\<open>setup\<close> does not obtain a browser executable (no path in the configuration,
  or no configuration at all, and the path typed at the prompt does not exist), a run
  that is not a conversion ends with a nonzero exit status, and every call it made is
  a start-up call: no working directory reset, no credentials, no browser launch. When
  no call raises, the status is the \<open>1\<close> of \<^verbatim>\<open>sys.exit(1)\<close>.
\<close>

theorem setup_failure_is_fatal:
  assumes "\<not> convert args"
    and "case stored_config w of None \<Rightarrow> True | Some cfg \<Rightarrow> executablePath cfg = []"
    and "files (typed_path w) = None"
  shows "exit_status (snd (main w args files)) \<noteq> 0
     \<and> set (fst (main w args files)) \<subseteq>
         {ClearConsole, CheckForUpdates, ReadConfig, WriteDefaultConfig, ConcreteReadConfig,
          Print FailedToFindBrowser, Input, Exists (typed_path w), Print FailedToFindExecutable}
     \<and> ((\<forall>a. \<not> raises w 0 a) \<longrightarrow> snd (main w args files) = Inl (SystemExit 1))"
proof -
  from setup_browser_gives_up [of w files] assms(2,3)
  obtain t a where s: "setup_browser w files = (t, Inl a)"
    and t: "set t \<subseteq> {ReadConfig, WriteDefaultConfig, ConcreteReadConfig,
          Print FailedToFindBrowser, Input, Exists (typed_path w), Print FailedToFindExecutable}"
    and a: "exit_status (Inl a) \<noteq> 0" "(\<forall>b. \<not> raises w 0 b) \<longrightarrow> a = SystemExit 1"
    by blast
  have "startup w args files =
      then_run (call w 0 ClearConsole) (then_run (call w 0 CheckForUpdates) (t, Inl a))"
    using assms(1) by (simp add: startup_def s skip_def return_def call_def)
  then have m: "main w args files =
      bind_run (then_run (call w 0 ClearConsole) (then_run (call w 0 CheckForUpdates) (t, Inl a)))
        (\<lambda>(executable_path, cfg).
       if extract_opt args then call w 0 (ExtractCredentials (accountFormat cfg))
       else if keepalive args then call w 0 (Keepalive (verbose args))
       else if (case loop args of None \<Rightarrow> False | Some n \<Rightarrow> n > 1) then
         loop_registrations w args files (the (loop args)) executable_path cfg
       else
         then_run (call w 0 ClearTmp)
           (bind_run (generate_mail w 0) (\<lambda>creds.
            bind_run (prepare_upload w args files) (\<lambda>(args', files').
              register w 0 args' files' creds executable_path cfg))))"
    by (simp only: main_def)
  show ?thesis
    unfolding m using t a by (auto simp add: call_def exit_status_def)
qed

theorem setup_failure_is_fatal_witness:
  "main (calm\<lparr>stored_config := None\<rparr>) plain_args disk =
     ([ClearConsole, CheckForUpdates, ReadConfig, WriteDefaultConfig, ConcreteReadConfig,
       Print FailedToFindBrowser, Input, Exists ''/no/such/browser'',
       Print FailedToFindExecutable],
      Inl (SystemExit 1))
   \<and> exit_status (snd (main (calm\<lparr>stored_config := None\<rparr>) plain_args disk)) \<noteq> 0"
  using setup_failure_is_fatal [of plain_args "calm\<lparr>stored_config := None\<rparr>" disk]
  by (simp add: main_def startup_def setup_browser_def run_defs sample_defs)

section \<open>Batch and single-shot\<close>

lemma bind_run_trace:
  "a \<in> set (fst (bind_run m f)) \<Longrightarrow>
     a \<in> set (fst m) \<or> (\<exists>x. snd m = Inr x \<and> a \<in> set (fst (f x)))"
  by (cases m; cases "snd m") auto

lemma register_upload_trace:
  "a \<in> set (fst (register_upload w i args files creds)) \<Longrightarrow> keeps_upload_path w args a"
  by (cases "file_opt args"; cases "files (the (file_opt args))")
     (auto simp add: register_upload_def run_defs keeps_upload_path_def split: if_splits)

lemma register_trace:
  assumes "a \<in> set (fst (register w i args files creds exe cfg))"
  shows "keeps_upload_path w args a"
proof -
  from seq_trace [OF assms [unfolded register_def]]
  show ?thesis
    using register_upload_trace [of a w i args files creds]
    by (auto simp add: run_defs keeps_upload_path_def split: if_splits)
qed

lemma loop_registrations_trace:
  assumes "a \<in> set (fst (loop_registrations w args files n exe cfg))"
  shows "keeps_upload_path w args a"
proof -
  from seq_trace [OF assms [unfolded loop_registrations_def]]
  obtain i where "a \<in> set (fst (loop_iteration w args files n exe cfg i))"
    by auto
  from seq_trace [OF this [unfolded loop_iteration_def]]
  have "a \<in> {Print (LoopProgress (int i + 1) n), ClearTmp, GenerateMail}
      \<or> a \<in> set (fst (register w i args files (generated w i) exe cfg))"
    by (auto simp add: generate_mail_def run_defs split: if_splits)
  then show ?thesis
    using register_trace by (auto simp add: keeps_upload_path_def)
qed

lemma setup_browser_trace:
  "a \<in> set (fst (setup_browser w files)) \<Longrightarrow> keeps_upload_path w args a"
  by (cases "stored_config w")
     (auto simp add: setup_browser_def run_defs keeps_upload_path_def split: if_splits)

lemma startup_trace:
  assumes "a \<in> set (fst (startup w args files))"
  shows "keeps_upload_path w args a"
proof -
  from assms then_run_trace
  have "a \<in> set (fst (seq [call w 0 ClearConsole, call w 0 CheckForUpdates,
          (if convert args then then_run (call w 0 ConvertAccounts) (sys_exit 0) else skip)]))
      \<or> a \<in> set (fst (bind_run (setup_browser w files) (\<lambda>(executable_path, cfg).
          if executable_path = [] then
            then_run (p_print FailedWhileSettingUp) (sys_exit 1)
          else return (executable_path, cfg))))"
    unfolding startup_def by blast
  then show ?thesis
  proof
    assume "a \<in> set (fst (seq [call w 0 ClearConsole, call w 0 CheckForUpdates,
          (if convert args then then_run (call w 0 ConvertAccounts) (sys_exit 0) else skip)]))"
    from seq_trace [OF this] show ?thesis
      by (auto simp add: run_defs keeps_upload_path_def split: if_splits)
  next
    assume "a \<in> set (fst (bind_run (setup_browser w files) (\<lambda>(executable_path, cfg).
          if executable_path = [] then
            then_run (p_print FailedWhileSettingUp) (sys_exit 1)
          else return (executable_path, cfg))))"
    from bind_run_trace [OF this] show ?thesis
      using setup_browser_trace [of a w files args]
      by (auto simp add: run_defs keeps_upload_path_def split: if_splits)
  qed
qed

text \<open>
  With a loop count above \<open>1\<close> the run is the start-up followed by the batch loop, and
  no call of it tests the upload path for a directory or archives it: every size check,
  existence test and upload is of the path as the command line gave it.
\<close>

lemma batch_run_keeps_upload_path:
  assumes "\<not> extract_opt args" and "\<not> keepalive args"
    and "loop args = Some n" and "1 < n"
  shows "main w args files =
       bind_run (startup w args files) (\<lambda>(exe, cfg). loop_registrations w args files n exe cfg)"
    and "\<forall>a \<in> set (fst (main w args files)). keeps_upload_path w args a"
proof -
  show m: "main w args files =
       bind_run (startup w args files) (\<lambda>(exe, cfg). loop_registrations w args files n exe cfg)"
    using assms by (simp add: main_def)
  show "\<forall>a \<in> set (fst (main w args files)). keeps_upload_path w args a"
  proof
    fix a
    assume "a \<in> set (fst (main w args files))"
    from bind_run_trace [OF this [unfolded m]]
    have "a \<in> set (fst (startup w args files))
       \<or> (\<exists>exe cfg. a \<in> set (fst (loop_registrations w args files n exe cfg)))"
      by auto
    then show "keeps_upload_path w args a"
      using startup_trace loop_registrations_trace by blast
  qed
qed

text \<open>
  The single-shot run. A directory is archived before \<^verbatim>\<open>register\<close> is called, and the
  size check is of the path that \<^verbatim>\<open>archive_folder\<close> returned; when no collaborator raises,
  the run ends with \<^verbatim>\<open>sys.exit(0)\<close> unless the path it checks is not there.
\<close>

lemma prepare_upload_result:
  "prepare_upload w args files =
     (case file_opt args of
        None \<Rightarrow> ([], Inr (args, files))
      | Some f \<Rightarrow>
          if f = [] then ([], Inr (args, files))
          else if \<not> denotes_directory files f then ([IsDir f], Inr (args, files))
          else if raises w 0 (MakeArchive f ''zip'' f) then
            ([IsDir f, IsDir f, MakeArchive f ''zip'' f],
             Inl (Raise (CallFailed (MakeArchive f ''zip'' f))))
          else
            ([IsDir f, IsDir f, MakeArchive f ''zip'' f,
              Print (FolderArchivedTo (rstrip_seps f @ ''.zip''))],
             Inr (args\<lparr>file_opt := Some (rstrip_seps f @ ''.zip'')\<rparr>,
                  files(f @ ''.zip'' \<mapsto> File (zip_size w f)))))"
  by (cases "file_opt args")
     (simp_all add: prepare_upload_def archive_folder_def make_archive_def run_defs)

lemma register_upload_missing:
  "file_opt args = Some f \<Longrightarrow> files f = None \<Longrightarrow>
     register_upload w i args files creds = ([GetSize f], Inl (Raise (FileNotFoundError f)))"
  by (simp add: register_upload_def run_defs)

lemma register_run:
  assumes "\<forall>a. \<not> raises w i a"
  shows "register w i args files creds exe cfg =
     (attempt_calls w i creds exe cfg @ fst (register_upload w i args files creds),
      case snd (register_upload w i args files creds) of
        Inl a \<Rightarrow> Inl a
      | Inr _ \<Rightarrow> if (case loop args of None \<Rightarrow> True | Some n \<Rightarrow> n \<le> 1)
                 then Inl (SystemExit 0) else Inr ())"
proof -
  obtain t r where u: "register_upload w i args files creds = (t, r)"
    by (cases "register_upload w i args files creds")
  show ?thesis
    using assms
    by (cases r) (simp_all add: register_def u attempt_calls_def run_defs)
qed

lemma single_shot_run:
  assumes "\<not> extract_opt args" and "\<not> keepalive args"
    and "case loop args of None \<Rightarrow> True | Some n \<Rightarrow> n \<le> 1"
    and "startup w args files = (t, Inr (exe, cfg))"
    and "\<forall>a. \<not> raises w 0 a"
    and "prepare_upload w args files = (tp, Inr (args', files'))"
  shows "main w args files =
     (t @ [ClearTmp, GenerateMail] @ tp @ attempt_calls w 0 (generated w 0) exe cfg
        @ fst (register_upload w 0 args' files' (generated w 0)),
      case file_opt args' of
        None \<Rightarrow> Inl (SystemExit 0)
      | Some p \<Rightarrow> if files' p = None then Inl (Raise (FileNotFoundError p))
                  else Inl (SystemExit 0))"
proof -
  have l: "loop args' = loop args"
    using assms(6) unfolding prepare_upload_result
    by (auto split: option.splits if_splits)
  have not_batch: "\<not> (case loop args of None \<Rightarrow> False | Some n \<Rightarrow> 1 < n)"
    using assms(3) by (cases "loop args") auto
  have u: "snd (register_upload w 0 args' files' (generated w 0)) =
      (case file_opt args' of
        None \<Rightarrow> Inr ()
      | Some p \<Rightarrow> if files' p = None then Inl (Raise (FileNotFoundError p)) else Inr ())"
    using assms(5)
    by (cases "file_opt args'"; cases "files' (the (file_opt args'))")
       (simp_all add: register_upload_def run_defs)
  show ?thesis
    using assms(1,2,3,5) not_batch
    by (simp add: main_def assms(4,6) generate_mail_def call_def call_returning_def
        register_run l u split: option.splits)
qed

text \<open>
  C10, at the input where the code leaves it: a single-shot run with an upload path
  that is not there. No collaborator raises, the account is verified and the
  credentials are saved, and the process ends with the exception of \<^verbatim>\<open>os.path.getsize\<close>,
  exit status \<open>1\<close>, where the claim has exit status \<open>0\<close>.
\<close>

theorem single_shot_missing_upload_path_exits_1:
  "main calm (upload_args ''gone.bin'') disk =
     ([ClearConsole, CheckForUpdates, ReadConfig, ClearTmp, GenerateMail, IsDir ''gone.bin'',
       Launch ''/usr/bin/chromium'', CreateIncognitoBrowserContext, NewPage, TypeName alice,
       TypePassword alice, FinishForm alice, MailLogin alice, Sleep 1500, GetMail,
       InitialSetup (Some ''confirm'') alice, Sleep 500, BrowserClose, Print VerifiedAccount,
       Print (ShowCredentials ''alice@mail.test'' ''S3cretPw''), DeleteDefault alice,
       SaveCredentials alice [], GetSize ''gone.bin''],
      Inl (Raise (FileNotFoundError ''gone.bin'')))
   \<and> exit_status (snd (main calm (upload_args ''gone.bin'') disk)) = 1"
  by (simp add: main_def startup_def setup_browser_def prepare_upload_def archive_folder_def
      generate_mail_def register_def register_upload_def denotes_directory_def exit_status_def
      run_defs sample_defs)

text \<open>The same run with a file that is there uploads it and exits with \<open>0\<close>.\<close>

lemma single_shot_upload_exits_0:
  "main calm (upload_args ''report.pdf'') disk =
     ([ClearConsole, CheckForUpdates, ReadConfig, ClearTmp, GenerateMail, IsDir ''report.pdf'',
       Launch ''/usr/bin/chromium'', CreateIncognitoBrowserContext, NewPage, TypeName alice,
       TypePassword alice, FinishForm alice, MailLogin alice, Sleep 1500, GetMail,
       InitialSetup (Some ''confirm'') alice, Sleep 500, BrowserClose, Print VerifiedAccount,
       Print (ShowCredentials ''alice@mail.test'' ''S3cretPw''), DeleteDefault alice,
       SaveCredentials alice [], GetSize ''report.pdf'', Exists ''report.pdf'',
       UploadFile False ''report.pdf'' alice],
      Inl (SystemExit 0))"
  by (simp add: main_def startup_def setup_browser_def prepare_upload_def archive_folder_def
      generate_mail_def register_def register_upload_def denotes_directory_def
      run_defs sample_defs)

section \<open>The record round trip\<close>
























end
